theory Spec2Isabelle
  imports Main
begin

section \<open>Relational schema\<close>

text \<open>
  The schema of \<^verbatim>\<open>supabase/migrations/20260217194812_....sql\<close>. A UUID and a
  timestamp are natural numbers, TEXT is a string, a nullable column is an option, a
  table is the list of its rows. Column names are prefixed by their table, since the
  tables share the names \<^verbatim>\<open>id\<close>, \<^verbatim>\<open>user_id\<close> and
  \<^verbatim>\<open>conversation_id\<close>.
\<close>

type_synonym uuid = nat
type_synonym timestamptz = nat

datatype conversation_type = dm | group

text \<open>
  \<^verbatim>\<open>auth.users\<close> belongs to the platform; the migration reads the columns
  \<^verbatim>\<open>id\<close>, \<^verbatim>\<open>email\<close> and \<^verbatim>\<open>raw_user_meta_data\<close>.
  The JSON object is the list of its keys with the text that \<^verbatim>\<open>->>\<close> yields
  for each; a key holding JSON null is left out, a NULL column is \<open>None\<close>.
\<close>

record auth_user =
  u_id :: uuid
  u_email :: "string option"
  u_raw_user_meta_data :: "(string \<times> string) list option"

record profile =
  p_id :: uuid
  p_display_name :: string
  p_avatar_url :: "string option"
  p_created_at :: timestamptz
  p_updated_at :: timestamptz

record conversation =
  c_id :: uuid
  c_type :: conversation_type
  c_name :: "string option"
  c_created_at :: timestamptz
  c_updated_at :: timestamptz

record conversation_member =
  cm_id :: uuid
  cm_conversation_id :: uuid
  cm_user_id :: uuid
  cm_joined_at :: timestamptz

record message =
  m_id :: uuid
  m_conversation_id :: uuid
  m_sender_id :: uuid
  m_content :: string
  m_created_at :: timestamptz

record read_receipt =
  rr_id :: uuid
  rr_message_id :: uuid
  rr_user_id :: uuid
  rr_read_at :: timestamptz

record db =
  auth_users :: "auth_user list"
  profiles :: "profile list"
  conversations :: "conversation list"
  conversation_members :: "conversation_member list"
  messages :: "message list"
  read_receipts :: "read_receipt list"

datatype error =
  insufficient_privilege
  | unique_violation
  | foreign_key_violation
  | not_null_violation

section \<open>Row-level security\<close>

text \<open>
  Every policy of the migrations is declared \<^verbatim>\<open>TO authenticated\<close>: a caller is
  an authenticated session, identified by the value of \<^verbatim>\<open>auth.uid()\<close>. A policy
  has a name, the command it is \<^verbatim>\<open>FOR\<close> and its expression
  (\<^verbatim>\<open>USING\<close> for SELECT, UPDATE and DELETE, \<^verbatim>\<open>WITH CHECK\<close> for INSERT),
  a predicate of the database, the caller and the row. All policies are permissive: on a
  table with row-level security enabled a command is allowed on a row when some policy
  for that command holds of it, and denied when there is none.
\<close>

datatype command = SELECT | INSERT | UPDATE | DELETE

record 'r policy =
  policy_name :: string
  policy_cmd :: command
  policy_expr :: "db \<Rightarrow> uuid \<Rightarrow> 'r \<Rightarrow> bool"

record 'r table_security =
  rls_enabled :: bool
  policies :: "'r policy list"

definition create_table :: "'r table_security" where
  "create_table = \<lparr>rls_enabled = False, policies = []\<rparr>"

definition enable_row_level_security :: "'r table_security \<Rightarrow> 'r table_security" where
  "enable_row_level_security t = t\<lparr>rls_enabled := True\<rparr>"

definition create_policy :: "'r policy \<Rightarrow> 'r table_security \<Rightarrow> 'r table_security" where
  "create_policy p t = t\<lparr>policies := policies t @ [p]\<rparr>"

definition drop_policy :: "string \<Rightarrow> 'r table_security \<Rightarrow> 'r table_security" where
  "drop_policy n t = t\<lparr>policies := filter (\<lambda>p. policy_name p \<noteq> n) (policies t)\<rparr>"

definition permitted :: "'r table_security \<Rightarrow> command \<Rightarrow> db \<Rightarrow> uuid \<Rightarrow> 'r \<Rightarrow> bool" where
  "permitted t cmd d uid r =
     (if rls_enabled t
      then list_ex (\<lambda>p. policy_cmd p = cmd \<and> policy_expr p d uid r) (policies t)
      else True)"

text \<open>
  An UPDATE or DELETE with a WHERE clause reads the rows it selects. It therefore acts
  on a row only when the SELECT policies let the caller see the row and the policies of
  the command itself allow it.
\<close>

definition permitted_reading ::
  "'r table_security \<Rightarrow> command \<Rightarrow> db \<Rightarrow> uuid \<Rightarrow> 'r \<Rightarrow> bool" where
  "permitted_reading t cmd d uid r \<longleftrightarrow>
     permitted t SELECT d uid r \<and> permitted t cmd d uid r"

subsection \<open>The membership helper\<close>

text \<open>
  \<^verbatim>\<open>SELECT EXISTS (SELECT 1 FROM public.conversation_members
    WHERE conversation_id = _conversation_id AND user_id = _user_id)\<close>,
  a SECURITY DEFINER function: it reads the whole table, whatever the caller may see.
\<close>

definition is_conversation_member :: "db \<Rightarrow> uuid \<Rightarrow> uuid \<Rightarrow> bool" where
  "is_conversation_member d conversation_id user_id =
     list_ex (\<lambda>x. cm_conversation_id x = conversation_id \<and> cm_user_id x = user_id)
       (conversation_members d)"

subsection \<open>Policies on profiles\<close>

definition Users_can_view_all_profiles :: "profile policy" where
  "Users_can_view_all_profiles =
     \<lparr>policy_name = ''Users can view all profiles'', policy_cmd = SELECT,
      policy_expr = (\<lambda>d uid r. True)\<rparr>"

definition Users_can_insert_own_profile :: "profile policy" where
  "Users_can_insert_own_profile =
     \<lparr>policy_name = ''Users can insert own profile'', policy_cmd = INSERT,
      policy_expr = (\<lambda>d uid r. p_id r = uid)\<rparr>"

definition Users_can_update_own_profile :: "profile policy" where
  "Users_can_update_own_profile =
     \<lparr>policy_name = ''Users can update own profile'', policy_cmd = UPDATE,
      policy_expr = (\<lambda>d uid r. p_id r = uid)\<rparr>"

subsection \<open>Policies on conversations\<close>

definition Members_can_view_conversations :: "conversation policy" where
  "Members_can_view_conversations =
     \<lparr>policy_name = ''Members can view conversations'', policy_cmd = SELECT,
      policy_expr = (\<lambda>d uid r. is_conversation_member d (c_id r) uid)\<rparr>"

definition Authenticated_users_can_create_conversations :: "conversation policy" where
  "Authenticated_users_can_create_conversations =
     \<lparr>policy_name = ''Authenticated users can create conversations'', policy_cmd = INSERT,
      policy_expr = (\<lambda>d uid r. True)\<rparr>"

definition Members_can_update_conversations :: "conversation policy" where
  "Members_can_update_conversations =
     \<lparr>policy_name = ''Members can update conversations'', policy_cmd = UPDATE,
      policy_expr = (\<lambda>d uid r. is_conversation_member d (c_id r) uid)\<rparr>"

subsection \<open>Policies on conversation\_members\<close>

definition Members_can_view_conversation_members :: "conversation_member policy" where
  "Members_can_view_conversation_members =
     \<lparr>policy_name = ''Members can view conversation members'', policy_cmd = SELECT,
      policy_expr = (\<lambda>d uid r. is_conversation_member d (cm_conversation_id r) uid)\<rparr>"

definition Authenticated_users_can_add_members :: "conversation_member policy" where
  "Authenticated_users_can_add_members =
     \<lparr>policy_name = ''Authenticated users can add members'', policy_cmd = INSERT,
      policy_expr = (\<lambda>d uid r. True)\<rparr>"

definition Users_can_leave_conversations :: "conversation_member policy" where
  "Users_can_leave_conversations =
     \<lparr>policy_name = ''Users can leave conversations'', policy_cmd = DELETE,
      policy_expr = (\<lambda>d uid r. cm_user_id r = uid)\<rparr>"

text \<open>The policy of the second migration, which replaces the unconditional insert policy.\<close>

definition Users_can_join_or_add_members_to_their_conversations ::
  "conversation_member policy" where
  "Users_can_join_or_add_members_to_their_conversations =
     \<lparr>policy_name = ''Users can join or add members to their conversations'',
      policy_cmd = INSERT,
      policy_expr = (\<lambda>d uid r.
        cm_user_id r = uid \<or> is_conversation_member d (cm_conversation_id r) uid)\<rparr>"

subsection \<open>Policies on messages\<close>

definition Members_can_view_messages :: "message policy" where
  "Members_can_view_messages =
     \<lparr>policy_name = ''Members can view messages'', policy_cmd = SELECT,
      policy_expr = (\<lambda>d uid r. is_conversation_member d (m_conversation_id r) uid)\<rparr>"

definition Members_can_send_messages :: "message policy" where
  "Members_can_send_messages =
     \<lparr>policy_name = ''Members can send messages'', policy_cmd = INSERT,
      policy_expr = (\<lambda>d uid r.
        m_sender_id r = uid \<and> is_conversation_member d (m_conversation_id r) uid)\<rparr>"

definition Senders_can_update_messages :: "message policy" where
  "Senders_can_update_messages =
     \<lparr>policy_name = ''Senders can update messages'', policy_cmd = UPDATE,
      policy_expr = (\<lambda>d uid r. m_sender_id r = uid)\<rparr>"

definition Senders_can_delete_messages :: "message policy" where
  "Senders_can_delete_messages =
     \<lparr>policy_name = ''Senders can delete messages'', policy_cmd = DELETE,
      policy_expr = (\<lambda>d uid r. m_sender_id r = uid)\<rparr>"

subsection \<open>Policies on read\_receipts\<close>

text \<open>
  \<^verbatim>\<open>EXISTS (SELECT 1 FROM public.messages m WHERE m.id = message_id
    AND public.is_conversation_member(m.conversation_id, auth.uid()))\<close>.
  The subquery runs as the caller, who sees of \<^verbatim>\<open>messages\<close> the rows whose
  conversation the caller is a member of: the condition the subquery states itself.
\<close>

definition message_in_callers_conversation :: "db \<Rightarrow> uuid \<Rightarrow> uuid \<Rightarrow> bool" where
  "message_in_callers_conversation d uid message_id =
     list_ex (\<lambda>m. m_id m = message_id \<and> is_conversation_member d (m_conversation_id m) uid)
       (messages d)"

definition Users_can_view_read_receipts_in_their_conversations :: "read_receipt policy" where
  "Users_can_view_read_receipts_in_their_conversations =
     \<lparr>policy_name = ''Users can view read receipts in their conversations'',
      policy_cmd = SELECT,
      policy_expr = (\<lambda>d uid r. message_in_callers_conversation d uid (rr_message_id r))\<rparr>"

definition Users_can_mark_messages_as_read :: "read_receipt policy" where
  "Users_can_mark_messages_as_read =
     \<lparr>policy_name = ''Users can mark messages as read'', policy_cmd = INSERT,
      policy_expr = (\<lambda>d uid r.
        rr_user_id r = uid \<and> message_in_callers_conversation d uid (rr_message_id r))\<rparr>"

subsection \<open>The two migrations\<close>

text \<open>
  The first migration creates each table, enables row-level security on it and creates
  its policies, in this order. The second one drops two of the policies by name and
  creates their replacements; it can only run after the first, since
  \<^verbatim>\<open>DROP POLICY\<close> needs the policy to exist.
\<close>

definition profiles_rls :: "profile table_security" where
  "profiles_rls =
     create_policy Users_can_update_own_profile
       (create_policy Users_can_insert_own_profile
         (create_policy Users_can_view_all_profiles
           (enable_row_level_security create_table)))"

definition conversations_rls_initial :: "conversation table_security" where
  "conversations_rls_initial =
     create_policy Members_can_update_conversations
       (create_policy Authenticated_users_can_create_conversations
         (create_policy Members_can_view_conversations
           (enable_row_level_security create_table)))"

definition conversation_members_rls_initial :: "conversation_member table_security" where
  "conversation_members_rls_initial =
     create_policy Users_can_leave_conversations
       (create_policy Authenticated_users_can_add_members
         (create_policy Members_can_view_conversation_members
           (enable_row_level_security create_table)))"

definition messages_rls :: "message table_security" where
  "messages_rls =
     create_policy Senders_can_delete_messages
       (create_policy Senders_can_update_messages
         (create_policy Members_can_send_messages
           (create_policy Members_can_view_messages
             (enable_row_level_security create_table))))"

definition read_receipts_rls :: "read_receipt table_security" where
  "read_receipts_rls =
     create_policy Users_can_mark_messages_as_read
       (create_policy Users_can_view_read_receipts_in_their_conversations
         (enable_row_level_security create_table))"

definition conversations_rls :: "conversation table_security" where
  "conversations_rls =
     create_policy Authenticated_users_can_create_conversations
       (drop_policy ''Authenticated users can create conversations''
         conversations_rls_initial)"

definition conversation_members_rls :: "conversation_member table_security" where
  "conversation_members_rls =
     create_policy Users_can_join_or_add_members_to_their_conversations
       (drop_policy ''Authenticated users can add members''
         conversation_members_rls_initial)"

section \<open>Statements\<close>

text \<open>A SELECT returns the rows of the table that the SELECT policies let the caller see.\<close>

definition select_profiles :: "db \<Rightarrow> uuid \<Rightarrow> profile list" where
  "select_profiles d uid = filter (permitted profiles_rls SELECT d uid) (profiles d)"

definition select_conversations :: "db \<Rightarrow> uuid \<Rightarrow> conversation list" where
  "select_conversations d uid =
     filter (permitted conversations_rls SELECT d uid) (conversations d)"

text \<open>
  An INSERT is checked against the INSERT policies first; the new row then has to pass
  the primary key, the UNIQUE constraint and the foreign keys of its table. A failed
  statement changes nothing: it returns the error and no database.
\<close>

definition insert_conversation_members ::
  "db \<Rightarrow> uuid \<Rightarrow> conversation_member \<Rightarrow> error + db" where
  "insert_conversation_members d uid r =
     (if \<not> permitted conversation_members_rls INSERT d uid r then Inl insufficient_privilege
      else if list_ex (\<lambda>x. cm_id x = cm_id r) (conversation_members d)
        then Inl unique_violation
      else if list_ex (\<lambda>x. cm_conversation_id x = cm_conversation_id r
                          \<and> cm_user_id x = cm_user_id r) (conversation_members d)
        then Inl unique_violation
      else if \<not> list_ex (\<lambda>c. c_id c = cm_conversation_id r) (conversations d)
        then Inl foreign_key_violation
      else if \<not> list_ex (\<lambda>u. u_id u = cm_user_id r) (auth_users d)
        then Inl foreign_key_violation
      else Inr (d\<lparr>conversation_members := conversation_members d @ [r]\<rparr>))"

definition insert_messages :: "db \<Rightarrow> uuid \<Rightarrow> message \<Rightarrow> error + db" where
  "insert_messages d uid r =
     (if \<not> permitted messages_rls INSERT d uid r then Inl insufficient_privilege
      else if list_ex (\<lambda>x. m_id x = m_id r) (messages d) then Inl unique_violation
      else if \<not> list_ex (\<lambda>c. c_id c = m_conversation_id r) (conversations d)
        then Inl foreign_key_violation
      else if \<not> list_ex (\<lambda>u. u_id u = m_sender_id r) (auth_users d)
        then Inl foreign_key_violation
      else Inr (d\<lparr>messages := messages d @ [r]\<rparr>))"

definition insert_read_receipts :: "db \<Rightarrow> uuid \<Rightarrow> read_receipt \<Rightarrow> error + db" where
  "insert_read_receipts d uid r =
     (if \<not> permitted read_receipts_rls INSERT d uid r then Inl insufficient_privilege
      else if list_ex (\<lambda>x. rr_id x = rr_id r) (read_receipts d) then Inl unique_violation
      else if list_ex (\<lambda>x. rr_message_id x = rr_message_id r \<and> rr_user_id x = rr_user_id r)
                (read_receipts d)
        then Inl unique_violation
      else if \<not> list_ex (\<lambda>m. m_id m = rr_message_id r) (messages d)
        then Inl foreign_key_violation
      else if \<not> list_ex (\<lambda>u. u_id u = rr_user_id r) (auth_users d)
        then Inl foreign_key_violation
      else Inr (d\<lparr>read_receipts := read_receipts d @ [r]\<rparr>))"

text \<open>
  A DELETE removes the rows that its WHERE clause selects, that the caller may see and
  that the DELETE policies allow; the other rows stay, without an error.
\<close>

definition delete_conversation_members ::
  "db \<Rightarrow> uuid \<Rightarrow> (conversation_member \<Rightarrow> bool) \<Rightarrow> db" where
  "delete_conversation_members d uid wh =
     d\<lparr>conversation_members :=
         filter (\<lambda>r. \<not> (wh r \<and> permitted_reading conversation_members_rls DELETE d uid r))
           (conversation_members d)\<rparr>"

text \<open>
  A deleted message takes its read receipts with it:
  \<^verbatim>\<open>message_id UUID NOT NULL REFERENCES public.messages(id) ON DELETE CASCADE\<close>.
  The cascade is not subject to the policies of \<^verbatim>\<open>read_receipts\<close>.
\<close>

definition delete_messages :: "db \<Rightarrow> uuid \<Rightarrow> (message \<Rightarrow> bool) \<Rightarrow> db" where
  "delete_messages d uid wh =
     d\<lparr>messages :=
         filter (\<lambda>r. \<not> (wh r \<and> permitted_reading messages_rls DELETE d uid r)) (messages d),
       read_receipts :=
         filter (\<lambda>x. \<not> list_ex (\<lambda>r. m_id r = rr_message_id x \<and> wh r
                        \<and> permitted_reading messages_rls DELETE d uid r) (messages d))
           (read_receipts d)\<rparr>"

text \<open>
  \<^verbatim>\<open>UPDATE public.messages SET content = ... WHERE ...\<close>, the edit of a message.
  The new row keeps \<^verbatim>\<open>sender_id\<close> and \<^verbatim>\<open>conversation_id\<close>, so it passes
  the checks that the old row passed (the UPDATE policy has no WITH CHECK of its own,
  its USING expression is applied to the new row), and the statement raises no error.
  Rows that are not selected, not visible or not allowed stay as they are.
\<close>

definition update_messages :: "db \<Rightarrow> uuid \<Rightarrow> (message \<Rightarrow> bool) \<Rightarrow> string \<Rightarrow> db" where
  "update_messages d uid wh new_content =
     d\<lparr>messages :=
         map (\<lambda>r. if wh r \<and> permitted_reading messages_rls UPDATE d uid r
                  then r\<lparr>m_content := new_content\<rparr> else r)
           (messages d)\<rparr>"

section \<open>The signup trigger\<close>

definition jsonb_get_text :: "(string \<times> string) list option \<Rightarrow> string \<Rightarrow> string option" where
  "jsonb_get_text j k = (case j of None \<Rightarrow> None | Some kvs \<Rightarrow> map_of kvs k)"

definition coalesce :: "'a option \<Rightarrow> 'a option \<Rightarrow> 'a option" where
  "coalesce a b = (case a of Some x \<Rightarrow> Some x | None \<Rightarrow> b)"

text \<open>
  \<^verbatim>\<open>INSERT INTO public.profiles (id, display_name)
    VALUES (NEW.id, COALESCE(NEW.raw_user_meta_data->>'display_name', NEW.email))\<close>,
  run as the function's owner (SECURITY DEFINER), whom the policies do not bind.
  \<^verbatim>\<open>display_name\<close> is NOT NULL, \<^verbatim>\<open>id\<close> is the primary key and
  references \<^verbatim>\<open>auth.users\<close>; the other columns take their defaults.
\<close>

definition handle_new_user :: "db \<Rightarrow> timestamptz \<Rightarrow> auth_user \<Rightarrow> error + db" where
  "handle_new_user d now NEW =
     (case coalesce (jsonb_get_text (u_raw_user_meta_data NEW) ''display_name'') (u_email NEW) of
        None \<Rightarrow> Inl not_null_violation
      | Some n \<Rightarrow>
          if list_ex (\<lambda>p. p_id p = u_id NEW) (profiles d) then Inl unique_violation
          else if \<not> list_ex (\<lambda>u. u_id u = u_id NEW) (auth_users d)
            then Inl foreign_key_violation
          else Inr (d\<lparr>profiles := profiles d @
                 [\<lparr>p_id = u_id NEW, p_display_name = n, p_avatar_url = None,
                   p_created_at = now, p_updated_at = now\<rparr>]\<rparr>))"

text \<open>
  \<^verbatim>\<open>on_auth_user_created\<close>: AFTER INSERT ON auth.users FOR EACH ROW. The trigger
  runs inside the inserting statement, so its error is the statement's error.
\<close>

definition insert_auth_users :: "db \<Rightarrow> timestamptz \<Rightarrow> auth_user \<Rightarrow> error + db" where
  "insert_auth_users d now NEW =
     (if list_ex (\<lambda>u. u_id u = u_id NEW) (auth_users d) then Inl unique_violation
      else handle_new_user (d\<lparr>auth_users := auth_users d @ [NEW]\<rparr>) now NEW)"

text \<open>The membership rows of a conversation; an orphan conversation has none.\<close>

definition members_of :: "db \<Rightarrow> uuid \<Rightarrow> conversation_member list" where
  "members_of d c = filter (\<lambda>x. cm_conversation_id x = c) (conversation_members d)"

definition has_member_row :: "db \<Rightarrow> uuid \<Rightarrow> uuid \<Rightarrow> bool" where
  "has_member_row d c u \<longleftrightarrow>
     (\<exists>x \<in> set (conversation_members d). cm_conversation_id x = c \<and> cm_user_id x = u)"

section \<open>A sample database\<close>

definition conversation_10 :: conversation where
  "conversation_10 =
     \<lparr>c_id = 10, c_type = group, c_name = Some ''team'', c_created_at = 3, c_updated_at = 3\<rparr>"

definition conversation_11 :: conversation where
  "conversation_11 =
     \<lparr>c_id = 11, c_type = dm, c_name = None, c_created_at = 4, c_updated_at = 4\<rparr>"

definition member_row :: "uuid \<Rightarrow> uuid \<Rightarrow> uuid \<Rightarrow> conversation_member" where
  "member_row i c u = \<lparr>cm_id = i, cm_conversation_id = c, cm_user_id = u, cm_joined_at = 8\<rparr>"

definition message_row :: "uuid \<Rightarrow> uuid \<Rightarrow> uuid \<Rightarrow> message" where
  "message_row i c u =
     \<lparr>m_id = i, m_conversation_id = c, m_sender_id = u, m_content = ''text'', m_created_at = 8\<rparr>"

definition receipt_row :: "uuid \<Rightarrow> uuid \<Rightarrow> uuid \<Rightarrow> read_receipt" where
  "receipt_row i m u = \<lparr>rr_id = i, rr_message_id = m, rr_user_id = u, rr_read_at = 8\<rparr>"

definition profile_row :: "uuid \<Rightarrow> string \<Rightarrow> profile" where
  "profile_row i n =
     \<lparr>p_id = i, p_display_name = n, p_avatar_url = None, p_created_at = 8, p_updated_at = 8\<rparr>"

text \<open>
  Three identities with their profiles; conversation 10 with members 1 and 2 and
  conversation 11 without a member; a message of member 1 and a message of identity 3,
  who is not a member; one read receipt, of identity 2 for message 1000.
\<close>

definition sample_db :: db where
  "sample_db =
     \<lparr>auth_users =
        [\<lparr>u_id = 1, u_email = Some ''a@example.com'',
          u_raw_user_meta_data = Some [(''display_name'', ''Ann'')]\<rparr>,
         \<lparr>u_id = 2, u_email = Some ''b@example.com'', u_raw_user_meta_data = Some []\<rparr>,
         \<lparr>u_id = 3, u_email = Some ''c@example.com'', u_raw_user_meta_data = None\<rparr>],
      profiles =
        [profile_row 1 ''Ann'', profile_row 2 ''b@example.com'',
         profile_row 3 ''c@example.com''],
      conversations = [conversation_10, conversation_11],
      conversation_members = [member_row 100 10 1, member_row 101 10 2],
      messages = [message_row 1000 10 1, message_row 1001 10 3],
      read_receipts = [receipt_row 5000 1000 2]\<rparr>"

definition own_row_in :: "uuid \<Rightarrow> uuid \<Rightarrow> conversation_member \<Rightarrow> bool" where
  "own_row_in c u x \<longleftrightarrow> cm_conversation_id x = c \<and> cm_user_id x = u"

definition message_with_id :: "uuid \<Rightarrow> message \<Rightarrow> bool" where
  "message_with_id i x \<longleftrightarrow> m_id x = i"

text \<open>Two identities about to sign up: one with a display name, one with an email only.\<close>

definition new_identity :: auth_user where
  "new_identity =
     \<lparr>u_id = 4, u_email = Some ''d@example.com'',
      u_raw_user_meta_data = Some [(''display_name'', ''Dan'')]\<rparr>"

definition new_identity_without_name :: auth_user where
  "new_identity_without_name =
     \<lparr>u_id = 5, u_email = Some ''e@example.com'', u_raw_user_meta_data = Some []\<rparr>"

definition new_identity_without_name_or_email :: auth_user where
  "new_identity_without_name_or_email =
     \<lparr>u_id = 6, u_email = None, u_raw_user_meta_data = None\<rparr>"

section \<open>What each command is allowed on\<close>

lemmas sample_defs =
  sample_db_def conversation_10_def conversation_11_def member_row_def message_row_def
  receipt_row_def profile_row_def


lemma permitted_conversations:
  "permitted conversations_rls SELECT d uid r = is_conversation_member d (c_id r) uid"
  "permitted conversations_rls INSERT d uid r = True"
  "permitted conversations_rls UPDATE d uid r = is_conversation_member d (c_id r) uid"
  "permitted conversations_rls DELETE d uid r = False"
  by (simp_all add: permitted_def conversations_rls_def conversations_rls_initial_def
      create_policy_def drop_policy_def enable_row_level_security_def create_table_def
      Members_can_view_conversations_def Authenticated_users_can_create_conversations_def
      Members_can_update_conversations_def)

lemma is_conversation_member_iff:
  "is_conversation_member d c u \<longleftrightarrow>
     (\<exists>x \<in> set (conversation_members d). cm_conversation_id x = c \<and> cm_user_id x = u)"
  by (simp add: is_conversation_member_def list_ex_iff)

lemma permitted_conversation_members:
  "permitted conversation_members_rls SELECT d uid r =
     is_conversation_member d (cm_conversation_id r) uid"
  "permitted conversation_members_rls INSERT d uid r =
     (cm_user_id r = uid \<or> is_conversation_member d (cm_conversation_id r) uid)"
  "permitted conversation_members_rls UPDATE d uid r = False"
  "permitted conversation_members_rls DELETE d uid r = (cm_user_id r = uid)"
  by (simp_all add: permitted_def conversation_members_rls_def
      conversation_members_rls_initial_def
      create_policy_def drop_policy_def enable_row_level_security_def create_table_def
      Members_can_view_conversation_members_def Authenticated_users_can_add_members_def
      Users_can_leave_conversations_def
      Users_can_join_or_add_members_to_their_conversations_def)

lemma permitted_messages:
  "permitted messages_rls SELECT d uid r = is_conversation_member d (m_conversation_id r) uid"
  "permitted messages_rls INSERT d uid r =
     (m_sender_id r = uid \<and> is_conversation_member d (m_conversation_id r) uid)"
  "permitted messages_rls UPDATE d uid r = (m_sender_id r = uid)"
  "permitted messages_rls DELETE d uid r = (m_sender_id r = uid)"
  by (simp_all add: permitted_def messages_rls_def
      create_policy_def enable_row_level_security_def create_table_def
      Members_can_view_messages_def Members_can_send_messages_def
      Senders_can_update_messages_def Senders_can_delete_messages_def)

lemma permitted_read_receipts:
  "permitted read_receipts_rls SELECT d uid r =
     message_in_callers_conversation d uid (rr_message_id r)"
  "permitted read_receipts_rls INSERT d uid r =
     (rr_user_id r = uid \<and> message_in_callers_conversation d uid (rr_message_id r))"
  "permitted read_receipts_rls UPDATE d uid r = False"
  "permitted read_receipts_rls DELETE d uid r = False"
  by (simp_all add: permitted_def read_receipts_rls_def
      create_policy_def enable_row_level_security_def create_table_def
      Users_can_view_read_receipts_in_their_conversations_def
      Users_can_mark_messages_as_read_def)

lemma permitted_profiles:
  "permitted profiles_rls SELECT d uid r = True"
  "permitted profiles_rls INSERT d uid r = (p_id r = uid)"
  "permitted profiles_rls UPDATE d uid r = (p_id r = uid)"
  "permitted profiles_rls DELETE d uid r = False"
  by (simp_all add: permitted_def profiles_rls_def
      create_policy_def enable_row_level_security_def create_table_def
      Users_can_view_all_profiles_def Users_can_insert_own_profile_def
      Users_can_update_own_profile_def)

lemma permitted_reading_messages:
  "permitted_reading messages_rls UPDATE d uid r
     \<longleftrightarrow> m_sender_id r = uid \<and> is_conversation_member d (m_conversation_id r) uid"
  "permitted_reading messages_rls DELETE d uid r
     \<longleftrightarrow> m_sender_id r = uid \<and> is_conversation_member d (m_conversation_id r) uid"
  by (auto simp: permitted_reading_def permitted_messages)

lemma permitted_reading_conversation_members:
  "permitted_reading conversation_members_rls DELETE d uid r
     \<longleftrightarrow> cm_user_id r = uid \<and> is_conversation_member d (cm_conversation_id r) uid"
  by (auto simp: permitted_reading_def permitted_conversation_members)

lemma own_row_is_member:
  "r \<in> set (conversation_members d) \<Longrightarrow>
     is_conversation_member d (cm_conversation_id r) (cm_user_id r)"
  by (auto simp: is_conversation_member_iff)

lemma is_conversation_member_has_row:
  "is_conversation_member d c u = has_member_row d c u"
  by (simp add: is_conversation_member_iff has_member_row_def)

lemma is_conversation_member_sample:
  "is_conversation_member sample_db 10 1" "is_conversation_member sample_db 10 2"
  "\<not> is_conversation_member sample_db 10 3" "\<not> is_conversation_member sample_db 11 u"
  by (simp_all add: is_conversation_member_def sample_defs)

section \<open>Viewing a conversation\<close>

text \<open>
  Claim C1. For a conversation row \<open>c\<close> of the table and an authenticated caller
  \<open>uid\<close>, the SELECT on \<^verbatim>\<open>conversations\<close> returns \<open>c\<close> if and only if
  \<^verbatim>\<open>conversation_members\<close> holds, in the same database state, a row with
  \<open>conversation_id = c.id\<close> and \<open>user_id = uid\<close>.
\<close>

theorem C1_view_conversation_iff_member:
  assumes "c \<in> set (conversations d)"
  shows "c \<in> set (select_conversations d uid) \<longleftrightarrow>
           (\<exists>x \<in> set (conversation_members d).
              cm_conversation_id x = c_id c \<and> cm_user_id x = uid)"
  using assms
  by (simp add: select_conversations_def permitted_conversations is_conversation_member_iff)

theorem C1_view_conversation_iff_member_witness:
  "conversation_10 \<in> set (conversations sample_db)
   \<and> conversation_10 \<in> set (select_conversations sample_db 1)
   \<and> conversation_10 \<notin> set (select_conversations sample_db 3)"
proof -
  have h: "conversation_10 \<in> set (conversations sample_db)"
    by (simp add: sample_defs conversation_10_def)
  have m1: "\<exists>x \<in> set (conversation_members sample_db).
              cm_conversation_id x = c_id conversation_10 \<and> cm_user_id x = 1"
    by (simp add: sample_defs conversation_10_def)
  have m3: "\<not> (\<exists>x \<in> set (conversation_members sample_db).
              cm_conversation_id x = c_id conversation_10 \<and> cm_user_id x = 3)"
    by (simp add: sample_defs conversation_10_def)
  from C1_view_conversation_iff_member [OF h, of 1] m1
  have v1: "conversation_10 \<in> set (select_conversations sample_db 1)" by blast
  from C1_view_conversation_iff_member [OF h, of 3] m3
  have v3: "conversation_10 \<notin> set (select_conversations sample_db 3)" by blast
  from h v1 v3 show ?thesis by blast
qed

section \<open>Orphan conversations\<close>

lemma no_members_not_member:
  "members_of d c = [] \<Longrightarrow> \<not> is_conversation_member d c u"
  by (auto simp: members_of_def is_conversation_member_iff filter_empty_conv)

lemma is_conversation_member_append:
  "is_conversation_member (d\<lparr>conversation_members := conversation_members d @ [r]\<rparr>) c u
     \<longleftrightarrow> is_conversation_member d c u \<or> (cm_conversation_id r = c \<and> cm_user_id r = u)"
  by (auto simp: is_conversation_member_iff)

text \<open>
  Claim C2, as amended. For a conversation \<open>c\<close> without membership rows and every
  authenticated caller \<open>uid\<close>: the caller can neither view nor update \<open>c\<close>, can
  neither view nor post a message of \<open>c\<close>, cannot see a membership row of \<open>c\<close> and
  cannot add another user to \<open>c\<close>. The state is not permanent: the INSERT policy of
  \<^verbatim>\<open>conversation_members\<close> holds of a row that names the caller, the insert of
  such a row succeeds once the keys are satisfied, and the caller then views \<open>c\<close>.
\<close>

theorem C2_orphan_hidden_until_self_join:
  assumes "members_of d (c_id c) = []"
  shows "c \<notin> set (select_conversations d uid)
       \<and> \<not> permitted conversations_rls SELECT d uid c
       \<and> \<not> permitted conversations_rls UPDATE d uid c
       \<and> (m_conversation_id m = c_id c \<longrightarrow>
            \<not> permitted messages_rls SELECT d uid m \<and> \<not> permitted messages_rls INSERT d uid m
            \<and> insert_messages d uid m = Inl insufficient_privilege)
       \<and> (cm_conversation_id r = c_id c \<longrightarrow>
            \<not> permitted conversation_members_rls SELECT d uid r
            \<and> (permitted conversation_members_rls INSERT d uid r \<longleftrightarrow> cm_user_id r = uid))
       \<and> (cm_conversation_id r = c_id c \<and> cm_user_id r = uid \<and> c \<in> set (conversations d)
            \<and> uid \<in> u_id ` set (auth_users d) \<and> cm_id r \<notin> cm_id ` set (conversation_members d)
          \<longrightarrow> insert_conversation_members d uid r
                = Inr (d\<lparr>conversation_members := conversation_members d @ [r]\<rparr>)
              \<and> c \<in> set (select_conversations
                   (d\<lparr>conversation_members := conversation_members d @ [r]\<rparr>) uid))"
proof -
  have nm: "\<And>u. \<not> is_conversation_member d (c_id c) u"
    using assms by (rule no_members_not_member)
  have a: "c \<notin> set (select_conversations d uid)"
    by (simp add: select_conversations_def permitted_conversations nm)
  have b: "\<not> permitted conversations_rls SELECT d uid c"
    "\<not> permitted conversations_rls UPDATE d uid c"
    by (simp_all add: permitted_conversations nm)
  have e: "m_conversation_id m = c_id c \<longrightarrow>
            \<not> permitted messages_rls SELECT d uid m \<and> \<not> permitted messages_rls INSERT d uid m
            \<and> insert_messages d uid m = Inl insufficient_privilege"
    by (simp add: permitted_messages insert_messages_def nm)
  have f: "cm_conversation_id r = c_id c \<longrightarrow>
            \<not> permitted conversation_members_rls SELECT d uid r
            \<and> (permitted conversation_members_rls INSERT d uid r \<longleftrightarrow> cm_user_id r = uid)"
    by (simp add: permitted_conversation_members nm)
  have g: "cm_conversation_id r = c_id c \<and> cm_user_id r = uid \<and> c \<in> set (conversations d)
            \<and> uid \<in> u_id ` set (auth_users d) \<and> cm_id r \<notin> cm_id ` set (conversation_members d)
          \<longrightarrow> insert_conversation_members d uid r
                = Inr (d\<lparr>conversation_members := conversation_members d @ [r]\<rparr>)
              \<and> c \<in> set (select_conversations
                   (d\<lparr>conversation_members := conversation_members d @ [r]\<rparr>) uid)"
  proof (intro impI, elim conjE)
    assume h: "cm_conversation_id r = c_id c" "cm_user_id r = uid" "c \<in> set (conversations d)"
      "uid \<in> u_id ` set (auth_users d)" "cm_id r \<notin> cm_id ` set (conversation_members d)"
    have nodup: "\<not> list_ex (\<lambda>x. cm_conversation_id x = cm_conversation_id r
                          \<and> cm_user_id x = cm_user_id r) (conversation_members d)"
      using nm [of uid] h(1,2) by (simp add: is_conversation_member_def)
    have ins: "insert_conversation_members d uid r
                = Inr (d\<lparr>conversation_members := conversation_members d @ [r]\<rparr>)"
      using h nodup
      by (auto simp: insert_conversation_members_def permitted_conversation_members
          list_ex_iff image_iff)
    have vis: "c \<in> set (select_conversations
                   (d\<lparr>conversation_members := conversation_members d @ [r]\<rparr>) uid)"
      using h(1,2,3)
      by (simp add: select_conversations_def permitted_conversations
          is_conversation_member_append)
    from ins vis
    show "insert_conversation_members d uid r
                = Inr (d\<lparr>conversation_members := conversation_members d @ [r]\<rparr>)
              \<and> c \<in> set (select_conversations
                   (d\<lparr>conversation_members := conversation_members d @ [r]\<rparr>) uid)"
      by simp
  qed
  from a b e f g show ?thesis by blast
qed

lemma members_of_sample_11: "members_of sample_db 11 = []"
  by (simp add: members_of_def sample_defs)

theorem C2_orphan_hidden_until_self_join_witness:
  "members_of sample_db (c_id conversation_11) = []
   \<and> conversation_11 \<notin> set (select_conversations sample_db 3)
   \<and> insert_messages sample_db 3 (message_row 1002 11 3) = Inl insufficient_privilege
   \<and> \<not> permitted conversation_members_rls INSERT sample_db 3 (member_row 102 11 2)
   \<and> permitted conversation_members_rls INSERT sample_db 3 (member_row 102 11 3)
   \<and> conversation_11 \<in> set (select_conversations
        (sample_db\<lparr>conversation_members :=
            conversation_members sample_db @ [member_row 102 11 3]\<rparr>) 3)"
proof -
  have h: "members_of sample_db (c_id conversation_11) = []"
    by (simp add: conversation_11_def members_of_sample_11)
  have pre: "cm_conversation_id (member_row 102 11 3) = c_id conversation_11
      \<and> cm_user_id (member_row 102 11 3) = 3
      \<and> conversation_11 \<in> set (conversations sample_db)
      \<and> 3 \<in> u_id ` set (auth_users sample_db)
      \<and> cm_id (member_row 102 11 3) \<notin> cm_id ` set (conversation_members sample_db)"
    by (simp add: member_row_def conversation_11_def sample_defs)
  have m: "m_conversation_id (message_row 1002 11 3) = c_id conversation_11"
    by (simp add: message_row_def conversation_11_def)
  have r2: "cm_conversation_id (member_row 102 11 2) = c_id conversation_11"
    "cm_user_id (member_row 102 11 2) \<noteq> 3"
    by (simp_all add: member_row_def conversation_11_def)
  from C2_orphan_hidden_until_self_join [OF h, of 3 "message_row 1002 11 3" "member_row 102 11 3"]
    C2_orphan_hidden_until_self_join [OF h, of 3 "message_row 1002 11 3" "member_row 102 11 2"]
    h pre m r2
  show ?thesis by blast
qed

text \<open>
  The claim as worded fails on conversation 11 of the sample database, which has no
  membership row: identity 3 is allowed to insert a membership row for itself, the
  insert succeeds, and conversation 11 is then among the conversations identity 3 views.
\<close>

theorem C2_orphan_not_permanent_counterexample:
  "members_of sample_db 11 = []
   \<and> permitted conversation_members_rls INSERT sample_db 3 (member_row 102 11 3)
   \<and> insert_conversation_members sample_db 3 (member_row 102 11 3)
       = Inr (sample_db\<lparr>conversation_members :=
                conversation_members sample_db @ [member_row 102 11 3]\<rparr>)
   \<and> select_conversations
       (sample_db\<lparr>conversation_members :=
          conversation_members sample_db @ [member_row 102 11 3]\<rparr>) 3 = [conversation_11]"
proof -
  have p: "permitted conversation_members_rls INSERT sample_db 3 (member_row 102 11 3)"
    by (simp add: permitted_conversation_members member_row_def)
  have i: "insert_conversation_members sample_db 3 (member_row 102 11 3)
       = Inr (sample_db\<lparr>conversation_members :=
                conversation_members sample_db @ [member_row 102 11 3]\<rparr>)"
    by (simp add: insert_conversation_members_def permitted_conversation_members
        member_row_def sample_defs)
  have s: "select_conversations
       (sample_db\<lparr>conversation_members :=
          conversation_members sample_db @ [member_row 102 11 3]\<rparr>) 3 = [conversation_11]"
    by (simp add: select_conversations_def permitted_conversations
        is_conversation_member_def member_row_def sample_defs conversation_11_def)
  from members_of_sample_11 p i s show ?thesis by blast
qed

section \<open>Editing and deleting messages\<close>

lemma messages_delete_messages:
  "messages (delete_messages d uid wh)
     = filter (\<lambda>r. \<not> (wh r \<and> m_sender_id r = uid
                      \<and> has_member_row d (m_conversation_id r) uid)) (messages d)"
  by (simp add: delete_messages_def permitted_reading_messages
      is_conversation_member_has_row)

lemma messages_update_messages:
  "messages (update_messages d uid wh new)
     = map (\<lambda>r. if wh r \<and> m_sender_id r = uid \<and> has_member_row d (m_conversation_id r) uid
                then r\<lparr>m_content := new\<rparr> else r) (messages d)"
  by (simp add: update_messages_def permitted_reading_messages
      is_conversation_member_has_row)

lemma read_receipts_delete_messages:
  "read_receipts (delete_messages d uid wh)
     = filter (\<lambda>x. \<not> (\<exists>r \<in> set (messages d). m_id r = rr_message_id x \<and> wh r
                      \<and> m_sender_id r = uid \<and> has_member_row d (m_conversation_id r) uid))
         (read_receipts d)"
  by (simp add: delete_messages_def permitted_reading_messages
      is_conversation_member_has_row list_ex_iff)

text \<open>
  Claim C3, as amended. The UPDATE policy and the DELETE policy of
  \<^verbatim>\<open>messages\<close> hold of a message \<open>m\<close> for a caller \<open>uid\<close> if and only if
  \<open>uid\<close> is the sender of \<open>m\<close>. An UPDATE of the content or a DELETE that selects rows
  by a WHERE clause is also subject to the SELECT policy, so it acts on exactly the
  selected rows whose sender is the caller and whose conversation the caller is a
  member of (a DELETE removes their read receipts too). Hence the sender who is a
  member edits and deletes \<open>m\<close>; the sender who holds no membership row for the
  conversation of \<open>m\<close> leaves \<open>m\<close> as it is; and so does every caller who is not the
  sender, member or not.
\<close>

theorem C3_sender_edits_message_while_member:
  "(permitted messages_rls UPDATE d uid m \<longleftrightarrow> uid = m_sender_id m)
   \<and> (permitted messages_rls DELETE d uid m \<longleftrightarrow> uid = m_sender_id m)
   \<and> messages (delete_messages d uid wh)
       = filter (\<lambda>r. \<not> (wh r \<and> m_sender_id r = uid
                        \<and> has_member_row d (m_conversation_id r) uid)) (messages d)
   \<and> read_receipts (delete_messages d uid wh)
       = filter (\<lambda>x. \<not> (\<exists>r \<in> set (messages d). m_id r = rr_message_id x \<and> wh r
                        \<and> m_sender_id r = uid \<and> has_member_row d (m_conversation_id r) uid))
           (read_receipts d)
   \<and> messages (update_messages d uid wh new)
       = map (\<lambda>r. if wh r \<and> m_sender_id r = uid
                      \<and> has_member_row d (m_conversation_id r) uid
                  then r\<lparr>m_content := new\<rparr> else r) (messages d)
   \<and> (m \<in> set (messages d) \<and> wh m \<and> uid = m_sender_id m
        \<and> has_member_row d (m_conversation_id m) uid
       \<longrightarrow> m \<notin> set (messages (delete_messages d uid wh))
          \<and> m\<lparr>m_content := new\<rparr> \<in> set (messages (update_messages d uid wh new)))
   \<and> (m \<in> set (messages d) \<and> uid = m_sender_id m
        \<and> \<not> has_member_row d (m_conversation_id m) uid
       \<longrightarrow> m \<in> set (messages (delete_messages d uid wh))
          \<and> m \<in> set (messages (update_messages d uid wh new)))
   \<and> (m \<in> set (messages d) \<and> uid \<noteq> m_sender_id m
       \<longrightarrow> m \<in> set (messages (delete_messages d uid wh))
          \<and> m \<in> set (messages (update_messages d uid wh new)))"
proof -
  have pol: "(permitted messages_rls UPDATE d uid m \<longleftrightarrow> uid = m_sender_id m)
      \<and> (permitted messages_rls DELETE d uid m \<longleftrightarrow> uid = m_sender_id m)"
    by (auto simp: permitted_messages)
  have acts: "m \<in> set (messages d) \<and> wh m \<and> uid = m_sender_id m
        \<and> has_member_row d (m_conversation_id m) uid
       \<longrightarrow> m \<notin> set (messages (delete_messages d uid wh))
          \<and> m\<lparr>m_content := new\<rparr> \<in> set (messages (update_messages d uid wh new))"
    by (force simp: messages_delete_messages messages_update_messages image_iff)
  have left: "m \<in> set (messages d) \<and> uid = m_sender_id m
        \<and> \<not> has_member_row d (m_conversation_id m) uid
       \<longrightarrow> m \<in> set (messages (delete_messages d uid wh))
          \<and> m \<in> set (messages (update_messages d uid wh new))"
    by (force simp: messages_delete_messages messages_update_messages image_iff)
  have other: "m \<in> set (messages d) \<and> uid \<noteq> m_sender_id m
       \<longrightarrow> m \<in> set (messages (delete_messages d uid wh))
          \<and> m \<in> set (messages (update_messages d uid wh new))"
    by (force simp: messages_delete_messages messages_update_messages image_iff)
  from pol messages_delete_messages [of d uid wh] read_receipts_delete_messages [of d uid wh]
    messages_update_messages [of d uid wh new] acts left other
  show ?thesis by (intro conjI) blast+
qed

theorem C3_sender_edits_message_while_member_witness:
  "messages (delete_messages sample_db 1 (message_with_id 1000)) = [message_row 1001 10 3]
   \<and> message_row 1000 10 1\<lparr>m_content := ''edited''\<rparr>
        \<in> set (messages (update_messages sample_db 1 (message_with_id 1000) ''edited''))
   \<and> message_row 1001 10 3 \<in> set (messages (delete_messages sample_db 3 (message_with_id 1001)))
   \<and> message_row 1001 10 3
        \<in> set (messages (update_messages sample_db 3 (message_with_id 1001) ''edited''))
   \<and> message_row 1000 10 1 \<in> set (messages (delete_messages sample_db 2 (message_with_id 1000)))
   \<and> message_row 1000 10 1
        \<in> set (messages (update_messages sample_db 2 (message_with_id 1000) ''edited''))"
proof -
  have a: "message_row 1000 10 1 \<in> set (messages sample_db)
      \<and> message_with_id 1000 (message_row 1000 10 1)
      \<and> 1 = m_sender_id (message_row 1000 10 1)
      \<and> has_member_row sample_db (m_conversation_id (message_row 1000 10 1)) 1"
    by (simp add: has_member_row_def message_with_id_def sample_defs)
  have b: "message_row 1001 10 3 \<in> set (messages sample_db)
      \<and> 3 = m_sender_id (message_row 1001 10 3)
      \<and> \<not> has_member_row sample_db (m_conversation_id (message_row 1001 10 3)) 3"
    by (simp add: has_member_row_def sample_defs)
  have c: "message_row 1000 10 1 \<in> set (messages sample_db)
      \<and> 2 \<noteq> m_sender_id (message_row 1000 10 1)"
    by (simp add: sample_defs)
  have f: "filter (\<lambda>r. \<not> (message_with_id 1000 r \<and> m_sender_id r = 1
                        \<and> has_member_row sample_db (m_conversation_id r) 1))
             (messages sample_db) = [message_row 1001 10 3]"
    by (simp add: has_member_row_def message_with_id_def sample_defs)
  from C3_sender_edits_message_while_member
    [of sample_db 1 "message_row 1000 10 1" "message_with_id 1000" "''edited''"] a f
  have s1: "messages (delete_messages sample_db 1 (message_with_id 1000))
       = [message_row 1001 10 3]"
    and s2: "message_row 1000 10 1\<lparr>m_content := ''edited''\<rparr>
        \<in> set (messages (update_messages sample_db 1 (message_with_id 1000) ''edited''))"
    by simp_all
  from C3_sender_edits_message_while_member
    [of sample_db 3 "message_row 1001 10 3" "message_with_id 1001" "''edited''"] b
  have s3: "message_row 1001 10 3
        \<in> set (messages (delete_messages sample_db 3 (message_with_id 1001)))"
    and s4: "message_row 1001 10 3
        \<in> set (messages (update_messages sample_db 3 (message_with_id 1001) ''edited''))"
    by blast+
  from C3_sender_edits_message_while_member
    [of sample_db 2 "message_row 1000 10 1" "message_with_id 1000" "''edited''"] c
  have s5: "message_row 1000 10 1
        \<in> set (messages (delete_messages sample_db 2 (message_with_id 1000)))"
    and s6: "message_row 1000 10 1
        \<in> set (messages (update_messages sample_db 2 (message_with_id 1000) ''edited''))"
    by blast+
  from s1 s2 s3 s4 s5 s6 show ?thesis by blast
qed

text \<open>
  The claim as worded fails on message 1001 of the sample database. Its sender,
  identity 3, holds no membership row for conversation 10, and both policies hold of the
  message for identity 3; yet the DELETE and the UPDATE of identity 3 that select the
  message by its id leave the database as it was.
\<close>

theorem C3_author_without_membership_counterexample:
  "message_row 1001 10 3 \<in> set (messages sample_db)
   \<and> m_sender_id (message_row 1001 10 3) = 3
   \<and> \<not> has_member_row sample_db 10 3
   \<and> permitted messages_rls DELETE sample_db 3 (message_row 1001 10 3)
   \<and> permitted messages_rls UPDATE sample_db 3 (message_row 1001 10 3)
   \<and> delete_messages sample_db 3 (message_with_id 1001) = sample_db
   \<and> update_messages sample_db 3 (message_with_id 1001) ''edited'' = sample_db"
proof -
  have a: "message_row 1001 10 3 \<in> set (messages sample_db)
      \<and> m_sender_id (message_row 1001 10 3) = 3 \<and> \<not> has_member_row sample_db 10 3"
    by (simp add: has_member_row_def sample_defs)
  have p: "permitted messages_rls DELETE sample_db 3 (message_row 1001 10 3)
      \<and> permitted messages_rls UPDATE sample_db 3 (message_row 1001 10 3)"
    by (simp add: permitted_messages message_row_def)
  have nm: "\<not> is_conversation_member sample_db 10 3"
    by (simp add: is_conversation_member_def sample_defs)
  have del: "delete_messages sample_db 3 (message_with_id 1001) = sample_db"
    by (simp add: delete_messages_def permitted_reading_messages message_with_id_def
        is_conversation_member_def sample_defs)
  have upd: "update_messages sample_db 3 (message_with_id 1001) ''edited'' = sample_db"
    by (simp add: update_messages_def permitted_reading_messages message_with_id_def
        is_conversation_member_def sample_defs)
  from a p del upd show ?thesis by blast
qed

section \<open>Adding members\<close>

text \<open>
  Claim C4. When the inserted membership row \<open>r\<close> names a user other than the caller
  \<open>uid\<close>, the INSERT policy in force after both migrations allows it if and only if the
  caller holds a membership row for the conversation of \<open>r\<close>; the statement is refused
  for lack of privilege exactly when the caller holds none, never succeeds then, and
  succeeds for a member once the keys of the table are satisfied. A row that names the
  caller is always allowed.
\<close>

theorem C4_add_member_iff_member_or_self:
  "(cm_user_id r \<noteq> uid \<longrightarrow>
      (permitted conversation_members_rls INSERT d uid r
         \<longleftrightarrow> has_member_row d (cm_conversation_id r) uid)
      \<and> (insert_conversation_members d uid r = Inl insufficient_privilege
         \<longleftrightarrow> \<not> has_member_row d (cm_conversation_id r) uid)
      \<and> (insert_conversation_members d uid r
           = Inr (d\<lparr>conversation_members := conversation_members d @ [r]\<rparr>)
         \<longrightarrow> has_member_row d (cm_conversation_id r) uid)
      \<and> (has_member_row d (cm_conversation_id r) uid
          \<and> cm_id r \<notin> cm_id ` set (conversation_members d)
          \<and> \<not> has_member_row d (cm_conversation_id r) (cm_user_id r)
          \<and> cm_conversation_id r \<in> c_id ` set (conversations d)
          \<and> cm_user_id r \<in> u_id ` set (auth_users d)
         \<longrightarrow> insert_conversation_members d uid r
               = Inr (d\<lparr>conversation_members := conversation_members d @ [r]\<rparr>)))
   \<and> (cm_user_id r = uid \<longrightarrow>
        permitted conversation_members_rls INSERT d uid r
        \<and> insert_conversation_members d uid r \<noteq> Inl insufficient_privilege)"
proof -
  have p: "permitted conversation_members_rls INSERT d uid r
      \<longleftrightarrow> cm_user_id r = uid \<or> has_member_row d (cm_conversation_id r) uid"
    by (simp add: permitted_conversation_members is_conversation_member_has_row)
  have den: "insert_conversation_members d uid r = Inl insufficient_privilege
      \<longleftrightarrow> \<not> permitted conversation_members_rls INSERT d uid r"
    by (simp add: insert_conversation_members_def)
  have suc: "insert_conversation_members d uid r
           = Inr (d\<lparr>conversation_members := conversation_members d @ [r]\<rparr>)
      \<longrightarrow> permitted conversation_members_rls INSERT d uid r"
    by (simp add: insert_conversation_members_def)
  have ok: "permitted conversation_members_rls INSERT d uid r
          \<and> cm_id r \<notin> cm_id ` set (conversation_members d)
          \<and> \<not> has_member_row d (cm_conversation_id r) (cm_user_id r)
          \<and> cm_conversation_id r \<in> c_id ` set (conversations d)
          \<and> cm_user_id r \<in> u_id ` set (auth_users d)
         \<longrightarrow> insert_conversation_members d uid r
               = Inr (d\<lparr>conversation_members := conversation_members d @ [r]\<rparr>)"
    by (fastforce simp: insert_conversation_members_def has_member_row_def list_ex_iff
        image_iff)
  from p den suc ok show ?thesis by blast
qed

theorem C4_add_member_iff_member_or_self_witness:
  "cm_user_id (member_row 102 10 3) \<noteq> 1 \<and> has_member_row sample_db 10 1
   \<and> insert_conversation_members sample_db 1 (member_row 102 10 3)
       = Inr (sample_db\<lparr>conversation_members :=
                conversation_members sample_db @ [member_row 102 10 3]\<rparr>)
   \<and> cm_user_id (member_row 102 10 2) \<noteq> 3 \<and> \<not> has_member_row sample_db 10 3
   \<and> insert_conversation_members sample_db 3 (member_row 102 10 2) = Inl insufficient_privilege
   \<and> permitted conversation_members_rls INSERT sample_db 3 (member_row 102 10 3)"
proof -
  have a: "cm_user_id (member_row 102 10 3) \<noteq> 1"
    "has_member_row sample_db (cm_conversation_id (member_row 102 10 3)) 1
      \<and> cm_id (member_row 102 10 3) \<notin> cm_id ` set (conversation_members sample_db)
      \<and> \<not> has_member_row sample_db (cm_conversation_id (member_row 102 10 3))
            (cm_user_id (member_row 102 10 3))
      \<and> cm_conversation_id (member_row 102 10 3) \<in> c_id ` set (conversations sample_db)
      \<and> cm_user_id (member_row 102 10 3) \<in> u_id ` set (auth_users sample_db)"
    by (simp_all add: member_row_def has_member_row_def sample_defs)
  have b: "cm_user_id (member_row 102 10 2) \<noteq> 3"
    "\<not> has_member_row sample_db (cm_conversation_id (member_row 102 10 2)) 3"
    by (simp_all add: member_row_def has_member_row_def sample_defs)
  have c: "cm_user_id (member_row 102 10 3) = 3"
    "cm_conversation_id (member_row 102 10 3) = 10"
    "cm_conversation_id (member_row 102 10 2) = 10"
    by (simp_all add: member_row_def)
  from C4_add_member_iff_member_or_self [of "member_row 102 10 3" 1 sample_db] a
  have s1: "insert_conversation_members sample_db 1 (member_row 102 10 3)
       = Inr (sample_db\<lparr>conversation_members :=
                conversation_members sample_db @ [member_row 102 10 3]\<rparr>)"
    by blast
  from C4_add_member_iff_member_or_self [of "member_row 102 10 2" 3 sample_db] b
  have s2: "insert_conversation_members sample_db 3 (member_row 102 10 2)
       = Inl insufficient_privilege"
    by blast
  from C4_add_member_iff_member_or_self [of "member_row 102 10 3" 3 sample_db] c(1)
  have s3: "permitted conversation_members_rls INSERT sample_db 3 (member_row 102 10 3)"
    by blast
  from a b c s1 s2 s3 show ?thesis by simp
qed

section \<open>Posting messages and leaving\<close>

lemma has_member_row_delete:
  "has_member_row (delete_conversation_members d uid wh) c u
     \<longleftrightarrow> (\<exists>x \<in> set (conversation_members d).
            cm_conversation_id x = c \<and> cm_user_id x = u \<and> \<not> (wh x \<and> u = uid))"
  by (auto simp: has_member_row_def delete_conversation_members_def
      permitted_reading_conversation_members dest: own_row_is_member)

text \<open>
  Claim C5. The INSERT policy of \<^verbatim>\<open>messages\<close> allows a row \<open>m\<close> for a caller
  \<open>uid\<close> if and only if \<open>uid\<close> is the sender of \<open>m\<close> and holds a membership row for
  the conversation of \<open>m\<close>. After the caller has deleted their own membership rows for a
  conversation \<open>c\<close> (a DELETE whose WHERE clause selects them), the caller holds none,
  and every insert of a message into \<open>c\<close> by the caller is refused. The INSERT
  statement is refused for lack of privilege exactly when the caller is not the sender
  or not a member; it succeeds only for a sender who is a member, appending the row, and
  it does succeed for one once the keys of the table are satisfied.
\<close>

theorem C5_send_message_iff_sender_and_member:
  "(permitted messages_rls INSERT d uid m
      \<longleftrightarrow> m_sender_id m = uid \<and> has_member_row d (m_conversation_id m) uid)
   \<and> ((\<forall>x. cm_conversation_id x = c \<and> cm_user_id x = uid \<longrightarrow> wh x)
        \<and> m_conversation_id m = c
       \<longrightarrow> \<not> has_member_row (delete_conversation_members d uid wh) c uid
          \<and> \<not> permitted messages_rls INSERT (delete_conversation_members d uid wh) uid m
          \<and> insert_messages (delete_conversation_members d uid wh) uid m
              = Inl insufficient_privilege)
   \<and> (insert_messages d uid m = Inl insufficient_privilege
        \<longleftrightarrow> \<not> (m_sender_id m = uid \<and> has_member_row d (m_conversation_id m) uid))
   \<and> (insert_messages d uid m = Inr d1
       \<longrightarrow> d1 = d\<lparr>messages := messages d @ [m]\<rparr>
          \<and> m_sender_id m = uid \<and> has_member_row d (m_conversation_id m) uid)
   \<and> (m_sender_id m = uid \<and> has_member_row d (m_conversation_id m) uid
        \<and> m_id m \<notin> m_id ` set (messages d)
        \<and> m_conversation_id m \<in> c_id ` set (conversations d)
        \<and> uid \<in> u_id ` set (auth_users d)
       \<longrightarrow> insert_messages d uid m = Inr (d\<lparr>messages := messages d @ [m]\<rparr>))"
proof -
  have p: "\<And>d. permitted messages_rls INSERT d uid m
      \<longleftrightarrow> m_sender_id m = uid \<and> has_member_row d (m_conversation_id m) uid"
    by (simp add: permitted_messages is_conversation_member_has_row)
  have g: "(\<forall>x. cm_conversation_id x = c \<and> cm_user_id x = uid \<longrightarrow> wh x)
       \<longrightarrow> \<not> has_member_row (delete_conversation_members d uid wh) c uid"
    by (auto simp: has_member_row_delete)
  have i: "\<And>d. insert_messages d uid m = Inl insufficient_privilege
       \<longleftrightarrow> \<not> permitted messages_rls INSERT d uid m"
    by (simp add: insert_messages_def)
  have s: "insert_messages d uid m = Inr d1
       \<longrightarrow> d1 = d\<lparr>messages := messages d @ [m]\<rparr> \<and> permitted messages_rls INSERT d uid m"
    by (auto simp: insert_messages_def split: if_splits)
  have ok: "permitted messages_rls INSERT d uid m
        \<and> m_id m \<notin> m_id ` set (messages d)
        \<and> m_conversation_id m \<in> c_id ` set (conversations d)
        \<and> m_sender_id m \<in> u_id ` set (auth_users d)
       \<longrightarrow> insert_messages d uid m = Inr (d\<lparr>messages := messages d @ [m]\<rparr>)"
    by (fastforce simp: insert_messages_def list_ex_iff image_iff)
  have c1: "permitted messages_rls INSERT d uid m
      \<longleftrightarrow> m_sender_id m = uid \<and> has_member_row d (m_conversation_id m) uid"
    by (rule p)
  have c2: "(\<forall>x. cm_conversation_id x = c \<and> cm_user_id x = uid \<longrightarrow> wh x)
        \<and> m_conversation_id m = c
       \<longrightarrow> \<not> has_member_row (delete_conversation_members d uid wh) c uid
          \<and> \<not> permitted messages_rls INSERT (delete_conversation_members d uid wh) uid m
          \<and> insert_messages (delete_conversation_members d uid wh) uid m
              = Inl insufficient_privilege"
    using p [of "delete_conversation_members d uid wh"] g
      i [of "delete_conversation_members d uid wh"]
    by blast
  have c3: "insert_messages d uid m = Inl insufficient_privilege
        \<longleftrightarrow> \<not> (m_sender_id m = uid \<and> has_member_row d (m_conversation_id m) uid)"
    using p [of d] i [of d] by blast
  have c4: "insert_messages d uid m = Inr d1
       \<longrightarrow> d1 = d\<lparr>messages := messages d @ [m]\<rparr>
          \<and> m_sender_id m = uid \<and> has_member_row d (m_conversation_id m) uid"
    using p [of d] s by blast
  have c5: "m_sender_id m = uid \<and> has_member_row d (m_conversation_id m) uid
        \<and> m_id m \<notin> m_id ` set (messages d)
        \<and> m_conversation_id m \<in> c_id ` set (conversations d)
        \<and> uid \<in> u_id ` set (auth_users d)
       \<longrightarrow> insert_messages d uid m = Inr (d\<lparr>messages := messages d @ [m]\<rparr>)"
    using p [of d] ok by blast
  show ?thesis by (intro conjI c1 c2 c3 c4 c5)
qed

theorem C5_send_message_iff_sender_and_member_witness:
  "permitted messages_rls INSERT sample_db 1 (message_row 1002 10 1)
   \<and> \<not> permitted messages_rls INSERT sample_db 1 (message_row 1002 10 2)
   \<and> \<not> permitted messages_rls INSERT sample_db 3 (message_row 1002 10 3)
   \<and> insert_messages (delete_conversation_members sample_db 1 (own_row_in 10 1)) 1
        (message_row 1002 10 1) = Inl insufficient_privilege
   \<and> insert_messages sample_db 1 (message_row 1002 10 1)
       = Inr (sample_db\<lparr>messages := messages sample_db @ [message_row 1002 10 1]\<rparr>)
   \<and> insert_messages sample_db 3 (message_row 1002 10 3) = Inl insufficient_privilege
   \<and> insert_messages sample_db 1 (message_row 1002 10 2) = Inl insufficient_privilege"
proof -
  have a: "m_sender_id (message_row 1002 10 1) = 1
      \<and> has_member_row sample_db (m_conversation_id (message_row 1002 10 1)) 1"
    by (simp add: message_row_def has_member_row_def sample_defs)
  have k: "m_id (message_row 1002 10 1) \<notin> m_id ` set (messages sample_db)
      \<and> m_conversation_id (message_row 1002 10 1) \<in> c_id ` set (conversations sample_db)
      \<and> 1 \<in> u_id ` set (auth_users sample_db)"
    by (simp add: sample_defs)
  have b: "m_sender_id (message_row 1002 10 2) \<noteq> 1"
    by (simp add: message_row_def)
  have c: "\<not> has_member_row sample_db (m_conversation_id (message_row 1002 10 3)) 3"
    by (simp add: message_row_def has_member_row_def sample_defs)
  have w: "(\<forall>x. cm_conversation_id x = 10 \<and> cm_user_id x = 1 \<longrightarrow> own_row_in 10 1 x)
      \<and> m_conversation_id (message_row 1002 10 1) = 10"
    by (simp add: own_row_in_def message_row_def)
  from C5_send_message_iff_sender_and_member
    [of sample_db 1 "message_row 1002 10 1" 10 "own_row_in 10 1"] a w k
  have s1: "permitted messages_rls INSERT sample_db 1 (message_row 1002 10 1)"
    and s4: "insert_messages (delete_conversation_members sample_db 1 (own_row_in 10 1)) 1
        (message_row 1002 10 1) = Inl insufficient_privilege"
    and s5: "insert_messages sample_db 1 (message_row 1002 10 1)
       = Inr (sample_db\<lparr>messages := messages sample_db @ [message_row 1002 10 1]\<rparr>)"
    by blast+
  from C5_send_message_iff_sender_and_member
    [of sample_db 1 "message_row 1002 10 2" 10 "own_row_in 10 1"] b
  have s2: "\<not> permitted messages_rls INSERT sample_db 1 (message_row 1002 10 2)"
    and s7: "insert_messages sample_db 1 (message_row 1002 10 2) = Inl insufficient_privilege"
    by blast+
  from C5_send_message_iff_sender_and_member
    [of sample_db 3 "message_row 1002 10 3" 10 "own_row_in 10 1"] c
  have s3: "\<not> permitted messages_rls INSERT sample_db 3 (message_row 1002 10 3)"
    and s6: "insert_messages sample_db 3 (message_row 1002 10 3) = Inl insufficient_privilege"
    by blast+
  from s1 s2 s3 s4 s5 s6 s7 show ?thesis by blast
qed

text \<open>
  Claim C6. The DELETE policy of \<^verbatim>\<open>conversation_members\<close> allows the command
  on a row \<open>r\<close> if and only if \<open>r\<close> names the caller. A row of another user survives
  every DELETE of the caller, also when the caller is a member of the same conversation;
  the caller's own row is removed by a DELETE whose WHERE clause selects it.
\<close>

theorem C6_members_remove_only_themselves:
  "(permitted conversation_members_rls DELETE d uid r \<longleftrightarrow> cm_user_id r = uid)
   \<and> (cm_user_id r \<noteq> uid \<and> has_member_row d (cm_conversation_id r) uid
        \<longrightarrow> \<not> permitted conversation_members_rls DELETE d uid r)
   \<and> (cm_user_id r \<noteq> uid \<and> r \<in> set (conversation_members d)
        \<longrightarrow> r \<in> set (conversation_members (delete_conversation_members d uid wh)))
   \<and> (cm_user_id r = uid \<and> wh r
        \<longrightarrow> r \<notin> set (conversation_members (delete_conversation_members d uid wh)))"
  by (auto simp: permitted_conversation_members delete_conversation_members_def
      permitted_reading_conversation_members dest: own_row_is_member)

theorem C6_members_remove_only_themselves_witness:
  "has_member_row sample_db 10 1
   \<and> member_row 101 10 2 \<in> set (conversation_members sample_db)
   \<and> \<not> permitted conversation_members_rls DELETE sample_db 1 (member_row 101 10 2)
   \<and> member_row 101 10 2
        \<in> set (conversation_members (delete_conversation_members sample_db 1 (own_row_in 10 2)))
   \<and> permitted conversation_members_rls DELETE sample_db 2 (member_row 101 10 2)
   \<and> member_row 101 10 2
        \<notin> set (conversation_members (delete_conversation_members sample_db 2 (own_row_in 10 2)))"
proof -
  have a: "cm_user_id (member_row 101 10 2) \<noteq> 1"
    "has_member_row sample_db (cm_conversation_id (member_row 101 10 2)) 1"
    "member_row 101 10 2 \<in> set (conversation_members sample_db)"
    by (simp_all add: has_member_row_def sample_defs)
  have b: "cm_user_id (member_row 101 10 2) = 2" "own_row_in 10 2 (member_row 101 10 2)"
    by (simp_all add: member_row_def own_row_in_def)
  have m: "has_member_row sample_db 10 1"
    by (simp add: has_member_row_def sample_defs)
  from C6_members_remove_only_themselves
    [of sample_db 1 "member_row 101 10 2" "own_row_in 10 2"] a
  have s1: "\<not> permitted conversation_members_rls DELETE sample_db 1 (member_row 101 10 2)"
    and s2: "member_row 101 10 2
        \<in> set (conversation_members (delete_conversation_members sample_db 1 (own_row_in 10 2)))"
    by blast+
  from C6_members_remove_only_themselves
    [of sample_db 2 "member_row 101 10 2" "own_row_in 10 2"] b
  have s3: "permitted conversation_members_rls DELETE sample_db 2 (member_row 101 10 2)"
    and s4: "member_row 101 10 2
        \<notin> set (conversation_members (delete_conversation_members sample_db 2 (own_row_in 10 2)))"
    by blast+
  from m a(3) s1 s2 s3 s4 show ?thesis by blast
qed

section \<open>Read receipts\<close>

lemma permitted_read_receipts_append:
  "permitted read_receipts_rls INSERT (d\<lparr>read_receipts := read_receipts d @ [r]\<rparr>) uid r'
     = permitted read_receipts_rls INSERT d uid r'"
  by (simp add: permitted_read_receipts message_in_callers_conversation_def
      is_conversation_member_def)

lemma insert_read_receipts_Inr:
  "insert_read_receipts d uid r = Inr d' \<Longrightarrow>
     d' = d\<lparr>read_receipts := read_receipts d @ [r]\<rparr>
     \<and> permitted read_receipts_rls INSERT d uid r"
  by (simp add: insert_read_receipts_def split: if_splits)

text \<open>
  Claim C7. When \<^verbatim>\<open>read_receipts\<close> already holds a row with the message and
  the user of the new row \<open>r\<close>, the insert never succeeds, so the table stays as it is,
  and an insert that the policy admits fails with a uniqueness violation. The first
  insert by a caller \<open>uid\<close> for a message \<open>m\<close> succeeds when \<open>uid\<close> is a member of the
  conversation of \<open>m\<close> (with \<open>uid\<close> an identity and a fresh row id), and it appends the
  row; any further insert by \<open>uid\<close> with the same message and user then fails with a
  uniqueness violation.
\<close>

theorem C7_duplicate_read_receipt_rejected:
  "((\<exists>x \<in> set (read_receipts d).
        rr_message_id x = rr_message_id r \<and> rr_user_id x = rr_user_id r)
     \<longrightarrow> (\<forall>d'. insert_read_receipts d uid r \<noteq> Inr d')
        \<and> (permitted read_receipts_rls INSERT d uid r
             \<longrightarrow> insert_read_receipts d uid r = Inl unique_violation))
   \<and> (rr_user_id r = uid \<and> m \<in> set (messages d) \<and> m_id m = rr_message_id r
        \<and> has_member_row d (m_conversation_id m) uid
        \<and> uid \<in> u_id ` set (auth_users d)
        \<and> rr_id r \<notin> rr_id ` set (read_receipts d)
        \<and> \<not> (\<exists>x \<in> set (read_receipts d).
               rr_message_id x = rr_message_id r \<and> rr_user_id x = rr_user_id r)
       \<longrightarrow> insert_read_receipts d uid r
             = Inr (d\<lparr>read_receipts := read_receipts d @ [r]\<rparr>))
   \<and> (insert_read_receipts d uid r = Inr d1
        \<and> rr_message_id r' = rr_message_id r \<and> rr_user_id r' = rr_user_id r
       \<longrightarrow> read_receipts d1 = read_receipts d @ [r]
          \<and> insert_read_receipts d1 uid r' = Inl unique_violation)"
proof -
  have dup: "(\<exists>x \<in> set (read_receipts d).
        rr_message_id x = rr_message_id r \<and> rr_user_id x = rr_user_id r)
     \<longrightarrow> (\<forall>d'. insert_read_receipts d uid r \<noteq> Inr d')
        \<and> (permitted read_receipts_rls INSERT d uid r
             \<longrightarrow> insert_read_receipts d uid r = Inl unique_violation)"
    by (auto simp: insert_read_receipts_def list_ex_iff)
  have first: "rr_user_id r = uid \<and> m \<in> set (messages d) \<and> m_id m = rr_message_id r
        \<and> has_member_row d (m_conversation_id m) uid
        \<and> uid \<in> u_id ` set (auth_users d)
        \<and> rr_id r \<notin> rr_id ` set (read_receipts d)
        \<and> \<not> (\<exists>x \<in> set (read_receipts d).
               rr_message_id x = rr_message_id r \<and> rr_user_id x = rr_user_id r)
       \<longrightarrow> insert_read_receipts d uid r
             = Inr (d\<lparr>read_receipts := read_receipts d @ [r]\<rparr>)"
  proof (intro impI, elim conjE)
    assume h: "rr_user_id r = uid" "m \<in> set (messages d)" "m_id m = rr_message_id r"
      "has_member_row d (m_conversation_id m) uid" "uid \<in> u_id ` set (auth_users d)"
      "rr_id r \<notin> rr_id ` set (read_receipts d)"
      "\<not> (\<exists>x \<in> set (read_receipts d).
               rr_message_id x = rr_message_id r \<and> rr_user_id x = rr_user_id r)"
    have pol: "permitted read_receipts_rls INSERT d uid r"
      using h(1-4)
      by (auto simp: permitted_read_receipts message_in_callers_conversation_def
          list_ex_iff is_conversation_member_has_row)
    have pk: "\<not> list_ex (\<lambda>x. rr_id x = rr_id r) (read_receipts d)"
      using h(6) by (fastforce simp: list_ex_iff image_iff)
    have uq: "\<not> list_ex (\<lambda>x. rr_message_id x = rr_message_id r
                \<and> rr_user_id x = rr_user_id r) (read_receipts d)"
      using h(7) by (simp add: list_ex_iff)
    have fk1: "list_ex (\<lambda>m. m_id m = rr_message_id r) (messages d)"
      using h(2,3) by (auto simp: list_ex_iff)
    have fk2: "list_ex (\<lambda>u. u_id u = rr_user_id r) (auth_users d)"
      using h(1,5) by (auto simp: list_ex_iff)
    from pol pk uq fk1 fk2
    show "insert_read_receipts d uid r = Inr (d\<lparr>read_receipts := read_receipts d @ [r]\<rparr>)"
      by (simp add: insert_read_receipts_def)
  qed
  have again: "insert_read_receipts d uid r = Inr d1
        \<and> rr_message_id r' = rr_message_id r \<and> rr_user_id r' = rr_user_id r
       \<longrightarrow> read_receipts d1 = read_receipts d @ [r]
          \<and> insert_read_receipts d1 uid r' = Inl unique_violation"
  proof (intro impI, elim conjE)
    assume h: "insert_read_receipts d uid r = Inr d1"
      "rr_message_id r' = rr_message_id r" "rr_user_id r' = rr_user_id r"
    from insert_read_receipts_Inr [OF h(1)]
    have d1: "d1 = d\<lparr>read_receipts := read_receipts d @ [r]\<rparr>"
      and pol: "permitted read_receipts_rls INSERT d uid r"
      by simp_all
    from pol h(2,3) have pol': "permitted read_receipts_rls INSERT d uid r'"
      by (simp add: permitted_read_receipts)
    have "insert_read_receipts (d\<lparr>read_receipts := read_receipts d @ [r]\<rparr>) uid r'
            = Inl unique_violation"
      using pol' h(2,3)
      by (simp add: insert_read_receipts_def permitted_read_receipts_append)
    with d1 show "read_receipts d1 = read_receipts d @ [r]
          \<and> insert_read_receipts d1 uid r' = Inl unique_violation"
      by simp
  qed
  from dup first again show ?thesis by blast
qed

theorem C7_duplicate_read_receipt_rejected_witness:
  "insert_read_receipts sample_db 2 (receipt_row 5001 1000 2) = Inl unique_violation
   \<and> insert_read_receipts sample_db 1 (receipt_row 5001 1000 1)
       = Inr (sample_db\<lparr>read_receipts := read_receipts sample_db @ [receipt_row 5001 1000 1]\<rparr>)
   \<and> insert_read_receipts
        (sample_db\<lparr>read_receipts := read_receipts sample_db @ [receipt_row 5001 1000 1]\<rparr>)
        1 (receipt_row 5002 1000 1) = Inl unique_violation"
proof -
  have dup: "\<exists>x \<in> set (read_receipts sample_db).
        rr_message_id x = rr_message_id (receipt_row 5001 1000 2)
        \<and> rr_user_id x = rr_user_id (receipt_row 5001 1000 2)"
    by (simp add: sample_defs)
  have pol: "permitted read_receipts_rls INSERT sample_db 2 (receipt_row 5001 1000 2)"
    by (simp add: permitted_read_receipts message_in_callers_conversation_def
        is_conversation_member_def sample_defs)
  have first: "rr_user_id (receipt_row 5001 1000 1) = 1
        \<and> message_row 1000 10 1 \<in> set (messages sample_db)
        \<and> m_id (message_row 1000 10 1) = rr_message_id (receipt_row 5001 1000 1)
        \<and> has_member_row sample_db (m_conversation_id (message_row 1000 10 1)) 1
        \<and> 1 \<in> u_id ` set (auth_users sample_db)
        \<and> rr_id (receipt_row 5001 1000 1) \<notin> rr_id ` set (read_receipts sample_db)
        \<and> \<not> (\<exists>x \<in> set (read_receipts sample_db).
               rr_message_id x = rr_message_id (receipt_row 5001 1000 1)
               \<and> rr_user_id x = rr_user_id (receipt_row 5001 1000 1))"
    by (simp add: has_member_row_def sample_defs)
  have same: "rr_message_id (receipt_row 5002 1000 1) = rr_message_id (receipt_row 5001 1000 1)
      \<and> rr_user_id (receipt_row 5002 1000 1) = rr_user_id (receipt_row 5001 1000 1)"
    by (simp add: receipt_row_def)
  from C7_duplicate_read_receipt_rejected
    [of sample_db "receipt_row 5001 1000 2" 2] dup pol
  have s1: "insert_read_receipts sample_db 2 (receipt_row 5001 1000 2) = Inl unique_violation"
    by blast
  from C7_duplicate_read_receipt_rejected
    [of sample_db "receipt_row 5001 1000 1" 1 "message_row 1000 10 1"] first
  have s2: "insert_read_receipts sample_db 1 (receipt_row 5001 1000 1)
       = Inr (sample_db\<lparr>read_receipts := read_receipts sample_db @ [receipt_row 5001 1000 1]\<rparr>)"
    by blast
  from C7_duplicate_read_receipt_rejected
    [of sample_db "receipt_row 5001 1000 1" 1 "message_row 1000 10 1"
      "sample_db\<lparr>read_receipts := read_receipts sample_db @ [receipt_row 5001 1000 1]\<rparr>"
      "receipt_row 5002 1000 1"] s2 same
  have s3: "insert_read_receipts
        (sample_db\<lparr>read_receipts := read_receipts sample_db @ [receipt_row 5001 1000 1]\<rparr>)
        1 (receipt_row 5002 1000 1) = Inl unique_violation"
    by blast
  from s1 s2 s3 show ?thesis by blast
qed

section \<open>Signup\<close>

lemma handle_new_user_Inr:
  assumes "handle_new_user d now NEW = Inr d'"
  shows "\<exists>n. coalesce (jsonb_get_text (u_raw_user_meta_data NEW) ''display_name'')
                (u_email NEW) = Some n
           \<and> \<not> list_ex (\<lambda>p. p_id p = u_id NEW) (profiles d)
           \<and> auth_users d' = auth_users d
           \<and> profiles d' = profiles d @
                 [\<lparr>p_id = u_id NEW, p_display_name = n, p_avatar_url = None,
                   p_created_at = now, p_updated_at = now\<rparr>]"
proof (cases "coalesce (jsonb_get_text (u_raw_user_meta_data NEW) ''display_name'')
                (u_email NEW)")
  case None
  with assms show ?thesis by (simp add: handle_new_user_def)
next
  case (Some n)
  with assms have fresh: "\<not> list_ex (\<lambda>p. p_id p = u_id NEW) (profiles d)"
    by (simp add: handle_new_user_def split: if_splits)
  from assms Some have d': "d' = d\<lparr>profiles := profiles d @
                 [\<lparr>p_id = u_id NEW, p_display_name = n, p_avatar_url = None,
                   p_created_at = now, p_updated_at = now\<rparr>]\<rparr>"
    by (simp add: handle_new_user_def split: if_splits)
  from d' have a: "auth_users d' = auth_users d" by simp
  from d' have b: "profiles d' = profiles d @
                 [\<lparr>p_id = u_id NEW, p_display_name = n, p_avatar_url = None,
                   p_created_at = now, p_updated_at = now\<rparr>]" by simp
  show ?thesis
    by (rule exI [where x = n]) (intro conjI Some fresh a b)
qed

lemma coalesce_cases:
  "coalesce a b = Some n \<Longrightarrow> (\<forall>s. a = Some s \<longrightarrow> n = s) \<and> (a = None \<longrightarrow> b = Some n)"
  by (cases a) (simp_all add: coalesce_def)

lemma coalesce_Some:
  "a \<noteq> None \<or> b \<noteq> None \<Longrightarrow> \<exists>n. coalesce a b = Some n"
  by (cases a) (auto simp: coalesce_def)

lemma filter_none:
  "\<not> list_ex P xs \<Longrightarrow> filter P xs = []"
  by (induction xs) simp_all

lemma insert_auth_users_Inr:
  "insert_auth_users d now NEW = Inr d' \<Longrightarrow>
     handle_new_user (d\<lparr>auth_users := auth_users d @ [NEW]\<rparr>) now NEW = Inr d'"
  by (simp add: insert_auth_users_def split: if_splits)

lemma insert_auth_users_fresh:
  "\<not> list_ex (\<lambda>u. u_id u = u_id NEW) (auth_users d) \<Longrightarrow>
     insert_auth_users d now NEW
       = handle_new_user (d\<lparr>auth_users := auth_users d @ [NEW]\<rparr>) now NEW"
  by (simp add: insert_auth_users_def)

lemma not_list_ex_image:
  "f r \<notin> f ` set xs \<Longrightarrow> \<not> list_ex (\<lambda>x. f x = f r) xs"
  by (induction xs) auto

text \<open>
  Claim C8. When the insert of a new identity into \<^verbatim>\<open>auth.users\<close> succeeds,
  the trigger has appended exactly one row to \<^verbatim>\<open>profiles\<close>: its id is the
  identity's id, its display name is the \<^verbatim>\<open>display_name\<close> of the metadata when
  that is present and the identity's email otherwise, and it is the only profile with
  that id. When the trigger's insert fails, the insert of the identity fails with the
  same error and no identity is created. The insert succeeds for a fresh id with a
  display name or an email.
\<close>

theorem C8_signup_creates_one_profile:
  "(insert_auth_users d now NEW = Inr d' \<longrightarrow>
      auth_users d' = auth_users d @ [NEW]
      \<and> (\<exists>n. profiles d' = profiles d @
                [\<lparr>p_id = u_id NEW, p_display_name = n, p_avatar_url = None,
                  p_created_at = now, p_updated_at = now\<rparr>]
             \<and> (\<forall>s. jsonb_get_text (u_raw_user_meta_data NEW) ''display_name'' = Some s
                    \<longrightarrow> n = s)
             \<and> (jsonb_get_text (u_raw_user_meta_data NEW) ''display_name'' = None
                    \<longrightarrow> u_email NEW = Some n))
      \<and> length (filter (\<lambda>p. p_id p = u_id NEW) (profiles d')) = 1)
   \<and> (u_id NEW \<notin> u_id ` set (auth_users d)
        \<and> handle_new_user (d\<lparr>auth_users := auth_users d @ [NEW]\<rparr>) now NEW = Inl e
       \<longrightarrow> insert_auth_users d now NEW = Inl e)
   \<and> (u_id NEW \<notin> u_id ` set (auth_users d) \<and> u_id NEW \<notin> p_id ` set (profiles d)
        \<and> (jsonb_get_text (u_raw_user_meta_data NEW) ''display_name'' \<noteq> None
             \<or> u_email NEW \<noteq> None)
       \<longrightarrow> (\<exists>d'. insert_auth_users d now NEW = Inr d'))"
proof (intro conjI impI)
  assume h: "insert_auth_users d now NEW = Inr d'"
  from handle_new_user_Inr [OF insert_auth_users_Inr [OF h]] obtain n where
    n: "coalesce (jsonb_get_text (u_raw_user_meta_data NEW) ''display_name'')
          (u_email NEW) = Some n"
    and fresh: "\<not> list_ex (\<lambda>p. p_id p = u_id NEW)
                  (profiles (d\<lparr>auth_users := auth_users d @ [NEW]\<rparr>))"
    and a: "auth_users d' = auth_users (d\<lparr>auth_users := auth_users d @ [NEW]\<rparr>)"
    and b: "profiles d' = profiles (d\<lparr>auth_users := auth_users d @ [NEW]\<rparr>) @
                [\<lparr>p_id = u_id NEW, p_display_name = n, p_avatar_url = None,
                  p_created_at = now, p_updated_at = now\<rparr>]"
    by blast
  from a show "auth_users d' = auth_users d @ [NEW]" by simp
  from b have b': "profiles d' = profiles d @
                [\<lparr>p_id = u_id NEW, p_display_name = n, p_avatar_url = None,
                  p_created_at = now, p_updated_at = now\<rparr>]" by simp
  from fresh have "filter (\<lambda>p. p_id p = u_id NEW) (profiles d) = []"
    by (simp add: filter_none)
  with b' show "length (filter (\<lambda>p. p_id p = u_id NEW) (profiles d')) = 1" by simp
  from coalesce_cases [OF n]
  have c1: "\<forall>s. jsonb_get_text (u_raw_user_meta_data NEW) ''display_name'' = Some s
                    \<longrightarrow> n = s"
    and c2: "jsonb_get_text (u_raw_user_meta_data NEW) ''display_name'' = None
                    \<longrightarrow> u_email NEW = Some n"
    by blast+
  show "\<exists>n. profiles d' = profiles d @
                [\<lparr>p_id = u_id NEW, p_display_name = n, p_avatar_url = None,
                  p_created_at = now, p_updated_at = now\<rparr>]
             \<and> (\<forall>s. jsonb_get_text (u_raw_user_meta_data NEW) ''display_name'' = Some s
                    \<longrightarrow> n = s)
             \<and> (jsonb_get_text (u_raw_user_meta_data NEW) ''display_name'' = None
                    \<longrightarrow> u_email NEW = Some n)"
    by (rule exI [where x = n]) (intro conjI b' c1 c2)
next
  assume h: "u_id NEW \<notin> u_id ` set (auth_users d)
        \<and> handle_new_user (d\<lparr>auth_users := auth_users d @ [NEW]\<rparr>) now NEW = Inl e"
  then have "\<not> list_ex (\<lambda>u. u_id u = u_id NEW) (auth_users d)"
    by (simp add: not_list_ex_image)
  from insert_auth_users_fresh [OF this] h
  show "insert_auth_users d now NEW = Inl e" by simp
next
  assume h: "u_id NEW \<notin> u_id ` set (auth_users d) \<and> u_id NEW \<notin> p_id ` set (profiles d)
        \<and> (jsonb_get_text (u_raw_user_meta_data NEW) ''display_name'' \<noteq> None
             \<or> u_email NEW \<noteq> None)"
  then have pk: "\<not> list_ex (\<lambda>u. u_id u = u_id NEW) (auth_users d)"
    by (simp add: not_list_ex_image)
  have "\<not> list_ex (\<lambda>p. p_id p = p_id \<lparr>p_id = u_id NEW, p_display_name = [],
          p_avatar_url = None, p_created_at = now, p_updated_at = now\<rparr>) (profiles d)"
    using h by (intro not_list_ex_image) simp
  then have ppk: "\<not> list_ex (\<lambda>p. p_id p = u_id NEW) (profiles d)" by simp
  from h have "jsonb_get_text (u_raw_user_meta_data NEW) ''display_name'' \<noteq> None
             \<or> u_email NEW \<noteq> None" by simp
  from coalesce_Some [OF this] obtain n where
    n: "coalesce (jsonb_get_text (u_raw_user_meta_data NEW) ''display_name'')
          (u_email NEW) = Some n"
    by blast
  have "handle_new_user (d\<lparr>auth_users := auth_users d @ [NEW]\<rparr>) now NEW
      = Inr (d\<lparr>auth_users := auth_users d @ [NEW], profiles := profiles d @
                 [\<lparr>p_id = u_id NEW, p_display_name = n, p_avatar_url = None,
                   p_created_at = now, p_updated_at = now\<rparr>]\<rparr>)"
    using ppk n by (simp add: handle_new_user_def)
  with insert_auth_users_fresh [OF pk]
  show "\<exists>d'. insert_auth_users d now NEW = Inr d'" by simp
qed

theorem C8_signup_creates_one_profile_witness:
  "(\<exists>d'. insert_auth_users sample_db 9 new_identity = Inr d'
          \<and> profiles d' = profiles sample_db @
               [\<lparr>p_id = 4, p_display_name = ''Dan'', p_avatar_url = None,
                 p_created_at = 9, p_updated_at = 9\<rparr>])
   \<and> (\<exists>d'. insert_auth_users sample_db 9 new_identity_without_name = Inr d'
          \<and> profiles d' = profiles sample_db @
               [\<lparr>p_id = 5, p_display_name = ''e@example.com'', p_avatar_url = None,
                 p_created_at = 9, p_updated_at = 9\<rparr>])
   \<and> insert_auth_users sample_db 9 new_identity_without_name_or_email
       = Inl not_null_violation"
proof -
  have g: "jsonb_get_text (u_raw_user_meta_data new_identity) ''display_name'' = Some ''Dan''"
    "u_id new_identity = 4"
    by (simp_all add: new_identity_def jsonb_get_text_def)
  have g': "jsonb_get_text (u_raw_user_meta_data new_identity_without_name) ''display_name''
       = None"
    "u_email new_identity_without_name = Some ''e@example.com''"
    "u_id new_identity_without_name = 5"
    by (simp_all add: new_identity_without_name_def jsonb_get_text_def)
  have pre: "u_id new_identity \<notin> u_id ` set (auth_users sample_db)
      \<and> u_id new_identity \<notin> p_id ` set (profiles sample_db)
      \<and> (jsonb_get_text (u_raw_user_meta_data new_identity) ''display_name'' \<noteq> None
           \<or> u_email new_identity \<noteq> None)"
    by (simp add: new_identity_def sample_defs)
  have pre': "u_id new_identity_without_name \<notin> u_id ` set (auth_users sample_db)
      \<and> u_id new_identity_without_name \<notin> p_id ` set (profiles sample_db)
      \<and> (jsonb_get_text (u_raw_user_meta_data new_identity_without_name) ''display_name''
            \<noteq> None
           \<or> u_email new_identity_without_name \<noteq> None)"
    by (simp add: new_identity_without_name_def sample_defs)
  have f: "u_id new_identity_without_name_or_email \<notin> u_id ` set (auth_users sample_db)
      \<and> handle_new_user
           (sample_db\<lparr>auth_users := auth_users sample_db @ [new_identity_without_name_or_email]\<rparr>)
           9 new_identity_without_name_or_email = Inl not_null_violation"
    by (simp add: new_identity_without_name_or_email_def sample_defs handle_new_user_def
        coalesce_def jsonb_get_text_def)
  from C8_signup_creates_one_profile [of sample_db 9 new_identity] pre
  obtain d1 where d1: "insert_auth_users sample_db 9 new_identity = Inr d1" by blast
  from C8_signup_creates_one_profile [of sample_db 9 new_identity d1] d1 g
  have p1: "profiles d1 = profiles sample_db @
               [\<lparr>p_id = 4, p_display_name = ''Dan'', p_avatar_url = None,
                 p_created_at = 9, p_updated_at = 9\<rparr>]"
    by auto
  from C8_signup_creates_one_profile [of sample_db 9 new_identity_without_name] pre'
  obtain d2 where d2: "insert_auth_users sample_db 9 new_identity_without_name = Inr d2"
    by blast
  from C8_signup_creates_one_profile [of sample_db 9 new_identity_without_name d2] d2 g'
  have p2: "profiles d2 = profiles sample_db @
               [\<lparr>p_id = 5, p_display_name = ''e@example.com'', p_avatar_url = None,
                 p_created_at = 9, p_updated_at = 9\<rparr>]"
    by auto
  from C8_signup_creates_one_profile
    [of sample_db 9 new_identity_without_name_or_email _ not_null_violation] f
  have p3: "insert_auth_users sample_db 9 new_identity_without_name_or_email
       = Inl not_null_violation"
    by blast
  from d1 p1 d2 p2 p3 show ?thesis by blast
qed

section \<open>Profiles\<close>

text \<open>
  Claim C9. An authenticated caller's SELECT on \<^verbatim>\<open>profiles\<close> returns every
  row of the table: its SELECT policy holds of every row, for every caller, in every
  database state, and so does not depend on any membership. The SELECT policies of the
  other four tables hold exactly when the caller has a membership row for the
  conversation concerned.
\<close>

theorem C9_every_profile_visible:
  "select_profiles d uid = profiles d
   \<and> permitted profiles_rls SELECT d uid p
   \<and> (permitted conversations_rls SELECT d uid c \<longleftrightarrow> has_member_row d (c_id c) uid)
   \<and> (permitted conversation_members_rls SELECT d uid r
        \<longleftrightarrow> has_member_row d (cm_conversation_id r) uid)
   \<and> (permitted messages_rls SELECT d uid m
        \<longleftrightarrow> has_member_row d (m_conversation_id m) uid)
   \<and> (permitted read_receipts_rls SELECT d uid rr
        \<longleftrightarrow> (\<exists>m \<in> set (messages d).
               m_id m = rr_message_id rr \<and> has_member_row d (m_conversation_id m) uid))"
  by (simp add: select_profiles_def permitted_profiles permitted_conversations
      permitted_conversation_members permitted_messages permitted_read_receipts
      message_in_callers_conversation_def list_ex_iff is_conversation_member_has_row)

theorem C9_every_profile_visible_witness:
  "members_of (delete_conversation_members sample_db 1 (own_row_in 10 1)) 10
     = [member_row 101 10 2]
   \<and> select_conversations sample_db 3 = []
   \<and> select_profiles sample_db 3
       = [profile_row 1 ''Ann'', profile_row 2 ''b@example.com'',
          profile_row 3 ''c@example.com'']"
proof -
  have a: "members_of (delete_conversation_members sample_db 1 (own_row_in 10 1)) 10
     = [member_row 101 10 2]"
    by (simp add: members_of_def delete_conversation_members_def
        permitted_reading_conversation_members is_conversation_member_def
        own_row_in_def sample_defs)
  have b: "select_conversations sample_db 3 = []"
    by (simp add: select_conversations_def permitted_conversations
        is_conversation_member_def sample_defs)
  have c: "profiles sample_db
       = [profile_row 1 ''Ann'', profile_row 2 ''b@example.com'',
          profile_row 3 ''c@example.com'']"
    by (simp add: sample_db_def)
  from C9_every_profile_visible [of sample_db 3] a b c show ?thesis by simp
qed

section \<open>Commands without a policy\<close>

text \<open>
  Claim C10. Row-level security is enabled on \<^verbatim>\<open>conversations\<close>,
  \<^verbatim>\<open>conversation_members\<close> and \<^verbatim>\<open>read_receipts\<close>, and after both
  migrations no policy is declared for DELETE on \<^verbatim>\<open>conversations\<close>, for UPDATE
  on \<^verbatim>\<open>conversation_members\<close>, or for UPDATE or DELETE on
  \<^verbatim>\<open>read_receipts\<close>. These commands are therefore denied on every row, for
  every authenticated caller, in every database state.
\<close>

theorem C10_no_policy_no_access:
  "rls_enabled conversations_rls \<and> rls_enabled conversation_members_rls
   \<and> rls_enabled read_receipts_rls
   \<and> filter (\<lambda>p. policy_cmd p = DELETE) (policies conversations_rls) = []
   \<and> filter (\<lambda>p. policy_cmd p = UPDATE) (policies conversation_members_rls) = []
   \<and> filter (\<lambda>p. policy_cmd p = UPDATE) (policies read_receipts_rls) = []
   \<and> filter (\<lambda>p. policy_cmd p = DELETE) (policies read_receipts_rls) = []
   \<and> \<not> permitted conversations_rls DELETE d uid c
   \<and> \<not> permitted conversation_members_rls UPDATE d uid r
   \<and> \<not> permitted read_receipts_rls UPDATE d uid rr
   \<and> \<not> permitted read_receipts_rls DELETE d uid rr"
proof -
  have cat: "rls_enabled conversations_rls \<and> rls_enabled conversation_members_rls
   \<and> rls_enabled read_receipts_rls
   \<and> filter (\<lambda>p. policy_cmd p = DELETE) (policies conversations_rls) = []
   \<and> filter (\<lambda>p. policy_cmd p = UPDATE) (policies conversation_members_rls) = []
   \<and> filter (\<lambda>p. policy_cmd p = UPDATE) (policies read_receipts_rls) = []
   \<and> filter (\<lambda>p. policy_cmd p = DELETE) (policies read_receipts_rls) = []"
    by (simp add: conversations_rls_def conversations_rls_initial_def
      conversation_members_rls_def conversation_members_rls_initial_def
      read_receipts_rls_def
      create_policy_def drop_policy_def enable_row_level_security_def create_table_def
      Members_can_view_conversations_def Authenticated_users_can_create_conversations_def
      Members_can_update_conversations_def
      Members_can_view_conversation_members_def Authenticated_users_can_add_members_def
      Users_can_leave_conversations_def
      Users_can_join_or_add_members_to_their_conversations_def
      Users_can_view_read_receipts_in_their_conversations_def
      Users_can_mark_messages_as_read_def)
  have den: "\<not> permitted conversations_rls DELETE d uid c
   \<and> \<not> permitted conversation_members_rls UPDATE d uid r
   \<and> \<not> permitted read_receipts_rls UPDATE d uid rr
   \<and> \<not> permitted read_receipts_rls DELETE d uid rr"
    by (simp add: permitted_conversations permitted_conversation_members
      permitted_read_receipts)
  from cat den show ?thesis by simp
qed

theorem C10_no_policy_no_access_witness:
  "has_member_row sample_db 10 1
   \<and> \<not> permitted conversations_rls DELETE sample_db 1 conversation_10
   \<and> \<not> permitted conversation_members_rls UPDATE sample_db 1 (member_row 100 10 1)
   \<and> \<not> permitted read_receipts_rls UPDATE sample_db 2 (receipt_row 5000 1000 2)
   \<and> \<not> permitted read_receipts_rls DELETE sample_db 2 (receipt_row 5000 1000 2)"
proof -
  have m: "has_member_row sample_db 10 1"
    by (simp add: has_member_row_def sample_defs)
  from C10_no_policy_no_access
    [of sample_db 1 conversation_10 "member_row 100 10 1" "receipt_row 5000 1000 2"]
    C10_no_policy_no_access
    [of sample_db 2 conversation_10 "member_row 100 10 1" "receipt_row 5000 1000 2"] m
  show ?thesis by blast
qed

end
